theory Spec2Isabelle
  imports
    Main
    "HOL-Library.Char_ord"
    "HOL-Library.List_Lexorder"
    "HOL-Library.Multiset"
    "HOL-Library.Product_Lexorder"
begin

section \<open>The CLAUDE.md merger (src/claude-system/merger.py)\<close>

subsection \<open>Sections\<close>

text \<open>
  The \<open>source\<close> field of the dataclass is a \<open>str\<close> that takes the four values
  listed in its comment: 'universal', 'company', 'project', 'developer'.
\<close>

datatype source = Universal | Company | Project | Developer

fun source_str :: "source \<Rightarrow> string" where
  "source_str Universal = ''universal''"
| "source_str Company = ''company''"
| "source_str Project = ''project''"
| "source_str Developer = ''developer''"

record Section =
  title :: string
  content :: string
  level :: int
  source :: source
  checksum :: string
  override_allowed :: bool
  metadata :: "(string \<times> string) list"

text \<open>
  \<open>hashlib.md5(content.encode()).hexdigest()\<close> is a library function: every
  definition that builds sections takes it as the parameter \<open>md5\<close>.
  \<open>post_init\<close> is \<open>Section.__post_init__\<close>.
\<close>

definition post_init :: "(string \<Rightarrow> string) \<Rightarrow> Section \<Rightarrow> Section" where
  "post_init md5 s = (if checksum s = [] then s\<lparr>checksum := md5 (content s)\<rparr> else s)"

subsection \<open>Dictionaries\<close>

text \<open>
  A Python \<open>dict\<close> keeps its keys in insertion order; assigning to a key that is
  present keeps its position, assigning to a new key appends it. The order is observable
  (stable sorting in \<open>generate_claude_md\<close>, the order of the audit lists), so a dict
  is an association list. \<open>dict_in\<close> is \<open>key in d\<close>, \<open>dict_get\<close> is \<open>d[key]\<close> after a
  successful \<open>in\<close> test, \<open>dict_set\<close> is \<open>d[key] = value\<close>.
\<close>

type_synonym sections = "(string \<times> Section) list"

definition dict_in :: "'k \<Rightarrow> ('k \<times> 'v) list \<Rightarrow> bool" where
  "dict_in k d = (map_of d k \<noteq> None)"

definition dict_get :: "('k \<times> 'v) list \<Rightarrow> 'k \<Rightarrow> 'v" where
  "dict_get d k = the (map_of d k)"

fun dict_set :: "'k \<Rightarrow> 'v \<Rightarrow> ('k \<times> 'v) list \<Rightarrow> ('k \<times> 'v) list" where
  "dict_set k v [] = [(k, v)]"
| "dict_set k v (p # d) = (if fst p = k then (k, v) # d else p # dict_set k v d)"

subsection \<open>Configuration and files\<close>

text \<open>
  \<open>self.config\<close> as \<open>_load_configs\<close> leaves it: the key 'company' (resp. 'project') is
  present when the YAML file of that tier existed. Of the YAML documents only the entries the
  merger reads are kept: \<open>roles\<close> maps a role name to its \<open>exclude_sections\<close> list (a role
  whose entry is empty or has no such list has the list \<open>[]\<close>, which filters nothing, as the
  early return does), \<open>developer_overrides_enabled\<close> is the truth value of
  \<open>developer_overrides.enabled\<close>, \<open>primary_role\<close> is absent or a role name.
\<close>

record company_config =
  roles :: "(string \<times> string list) list option"

record project_config =
  developer_overrides_enabled :: bool
  primary_role :: "string option"

record config =
  company :: "company_config option"
  project :: "project_config option"

text \<open>
  A template file is given by the headings that the regular-expression split of
  \<open>parse_markdown_sections\<close> finds in it, in document order: heading level (the number of
  \<open>#\<close>), stripped title, stripped body. The split itself and the stripping are library calls
  on text and are not modelled.
\<close>

type_synonym heading = "int \<times> string \<times> string"

record system_dir =
  core_md :: "heading list option"
  languages :: "(string \<times> heading list) list option"

record company_dir =
  standards_md :: "heading list option"

record project_dir =
  overrides_md :: "heading list option"
  developer_md :: "(string \<times> heading list) list"
  dry_run_report_txt :: "string option"
  claude_md_preview :: "string option"

text \<open>
  The files the merger touches: \<open>~/.claude-templates/claude-system/base\<close> (\<open>core.md\<close> and
  the directory \<open>languages\<close> with its \<open>*.md\<close> files in the order \<open>glob\<close> yields them, each
  with its stem), \<open>.claude-company\<close>, \<open>.claude-project\<close>, and the destination \<open>CLAUDE.md\<close>
  with its backup \<open>CLAUDE.md.backup\<close>. \<open>None\<close> is a file or directory that does not exist.
\<close>

record filesystem =
  claude_system :: system_dir
  claude_company :: "company_dir option"
  claude_project :: "project_dir option"
  claude_md :: "string option"
  claude_md_backup :: "string option"

text \<open>
  What a run reads from its process environment: the clock, already formatted with
  \<open>'%Y-%m-%d %H:%M:%S'\<close>, at the call in \<open>generate_claude_md\<close> and at the call in
  \<open>generate_dry_run_report\<close>, and whether \<open>CLAUDE_DEBUG\<close> is set to a non-empty value.
\<close>

record environ =
  now_content :: string
  now_report :: string
  claude_debug :: bool

subsection \<open>Parsing and the tier folds\<close>

definition parse_markdown_sections ::
  "(string \<Rightarrow> string) \<Rightarrow> heading list \<Rightarrow> source \<Rightarrow> Section list" where
  "parse_markdown_sections md5 hs src =
     map (\<lambda>(lvl, t, body).
            post_init md5 \<lparr>title = t, content = body, level = lvl, source = src,
                           checksum = [], override_allowed = True, metadata = []\<rparr>) hs"

text \<open>The two loops of \<open>load_universal_base\<close>: over the core template, over the language files.\<close>

definition universal_step :: "sections \<Rightarrow> Section \<Rightarrow> sections" where
  "universal_step base_sections s = dict_set (title s) s base_sections"

definition language_step :: "string \<Rightarrow> sections \<Rightarrow> Section \<Rightarrow> sections" where
  "language_step stem base_sections s =
     (let s' = s\<lparr>metadata := dict_set ''language'' stem (metadata s)\<rparr>;
          key = stem @ '':'' @ title s'
      in dict_set key s' base_sections)"

definition language_file_step ::
  "(string \<Rightarrow> string) \<Rightarrow> sections \<Rightarrow> string \<times> heading list \<Rightarrow> sections" where
  "language_file_step md5 base_sections f =
     foldl (language_step (fst f)) base_sections (parse_markdown_sections md5 (snd f) Universal)"

definition load_universal_base :: "(string \<Rightarrow> string) \<Rightarrow> filesystem \<Rightarrow> sections" where
  "load_universal_base md5 fs =
     (let base_sections =
            (case core_md (claude_system fs) of
               None \<Rightarrow> []
             | Some hs \<Rightarrow> foldl universal_step [] (parse_markdown_sections md5 hs Universal))
      in case languages (claude_system fs) of
           None \<Rightarrow> base_sections
         | Some files \<Rightarrow> foldl (language_file_step md5) base_sections files)"

text \<open>
  \<open>str.lower\<close> is a library function on Unicode text: the definitions that reach the role
  filter take it as the parameter \<open>lower\<close>. The substring test \<open>exclude in title\<close> follows.
\<close>

fun starts_with :: "string \<Rightarrow> string \<Rightarrow> bool" where
  "starts_with [] ys = True"
| "starts_with (x # xs) [] = False"
| "starts_with (x # xs) (y # ys) = (x = y \<and> starts_with xs ys)"

fun str_contains :: "string \<Rightarrow> string \<Rightarrow> bool" where
  "str_contains xs [] = (xs = [])"
| "str_contains xs (y # ys) = (starts_with xs (y # ys) \<or> str_contains xs ys)"

definition apply_role_filters ::
  "(string \<Rightarrow> string) \<Rightarrow> config \<Rightarrow> sections \<Rightarrow> sections" where
  "apply_role_filters lower cfg secs =
     (let role = (case project cfg of
                    None \<Rightarrow> ''fullstack''
                  | Some p \<Rightarrow> (case primary_role p of None \<Rightarrow> ''fullstack'' | Some r \<Rightarrow> r));
          role_config = (case company cfg of
                           None \<Rightarrow> None
                         | Some c \<Rightarrow> (case roles c of None \<Rightarrow> None | Some rs \<Rightarrow> map_of rs role))
      in case role_config of
           None \<Rightarrow> secs
         | Some exclude_sections \<Rightarrow>
             filter (\<lambda>(key, s). \<not> (\<exists>exclude \<in> set exclude_sections.
                                        str_contains exclude (lower (title s)))) secs)"

definition company_step :: "sections \<Rightarrow> Section \<Rightarrow> sections" where
  "company_step secs s =
     (if dict_in (title s) secs then dict_set (title s) s secs
      else dict_set (title s) s secs)"

definition apply_company_overrides ::
  "(string \<Rightarrow> string) \<Rightarrow> (string \<Rightarrow> string) \<Rightarrow> config \<Rightarrow> filesystem \<Rightarrow> sections
     \<Rightarrow> sections" where
  "apply_company_overrides md5 lower cfg fs base_sections =
     (case claude_company fs of
        None \<Rightarrow> base_sections
      | Some dir \<Rightarrow>
          (let secs = (case standards_md dir of
                         None \<Rightarrow> base_sections
                       | Some hs \<Rightarrow>
                           foldl company_step base_sections
                             (parse_markdown_sections md5 hs Company))
           in if (case company cfg of None \<Rightarrow> False | Some c \<Rightarrow> roles c \<noteq> None)
              then apply_role_filters lower cfg secs else secs))"

definition project_step :: "sections \<Rightarrow> Section \<Rightarrow> sections" where
  "project_step project_sections s =
     (if dict_in (title s) project_sections
         \<and> (let existing = dict_get project_sections (title s)
            in \<not> override_allowed existing \<and> source existing = Company)
      then project_sections
      else dict_set (title s) s project_sections)"

definition apply_project_customizations ::
  "(string \<Rightarrow> string) \<Rightarrow> filesystem \<Rightarrow> sections \<Rightarrow> sections" where
  "apply_project_customizations md5 fs secs =
     (case claude_project fs of
        None \<Rightarrow> secs
      | Some dir \<Rightarrow>
          (case overrides_md dir of
             None \<Rightarrow> secs
           | Some hs \<Rightarrow> foldl project_step secs (parse_markdown_sections md5 hs Project)))"

definition developer_step :: "sections \<Rightarrow> Section \<Rightarrow> sections" where
  "developer_step dev_sections s =
     (if dict_in (title s) dev_sections
         \<and> (let existing = dict_get dev_sections (title s)
            in source existing \<in> set [Universal, Company])
      then dev_sections
      else dict_set (title s) s dev_sections)"

definition apply_developer_preferences ::
  "(string \<Rightarrow> string) \<Rightarrow> config \<Rightarrow> filesystem \<Rightarrow> sections \<Rightarrow> string \<Rightarrow> sections" where
  "apply_developer_preferences md5 cfg fs secs username =
     (if \<not> (case project cfg of None \<Rightarrow> False | Some p \<Rightarrow> developer_overrides_enabled p)
      then secs
      else case claude_project fs of
             None \<Rightarrow> secs
           | Some dir \<Rightarrow>
               (case map_of (developer_md dir) username of
                  None \<Rightarrow> secs
                | Some hs \<Rightarrow>
                    foldl developer_step secs (parse_markdown_sections md5 hs Developer)))"

subsection \<open>Rendering\<close>

definition newline :: char where
  "newline = CHR 0x0A"

text \<open>\<open>'\n'.join(output)\<close>\<close>

fun join_lines :: "string list \<Rightarrow> string" where
  "join_lines [] = []"
| "join_lines [l] = l"
| "join_lines (l # l' # ls) = l @ [newline] @ join_lines (l' # ls)"

text \<open>
  \<open>sorted(sections.values(), key=lambda s: (s.level, s.title))\<close>: Python's sort is stable and
  compares the key tuples lexicographically, the titles by code point. \<open>sort_key\<close> is a
  stable insertion sort; pairs and strings are ordered lexicographically.
\<close>

definition sort_tuple :: "Section \<Rightarrow> int \<times> string" where
  "sort_tuple s = (level s, title s)"

definition sorted_sections :: "sections \<Rightarrow> Section list" where
  "sorted_sections secs = sort_key sort_tuple (map snd secs)"

text \<open>The lines one pass of the rendering loop appends.\<close>

definition section_lines :: "environ \<Rightarrow> Section \<Rightarrow> string list" where
  "section_lines env s =
     [replicate (nat (level s)) (CHR ''#'') @ '' '' @ title s, []]
     @ (if content s \<noteq> [] then [content s, []] else [])
     @ (if claude_debug env
        then [''<!-- Source: '' @ source_str (source s) @ '', Checksum: '' @ checksum s
                @ '' -->'', []]
        else [])"

definition generate_claude_md :: "environ \<Rightarrow> sections \<Rightarrow> string" where
  "generate_claude_md env secs =
     join_lines
       ([''# CLAUDE.md - Generated '' @ now_content env, [],
         ''*This file is auto-generated from 3-tier template system. Do not edit directly.*'',
         []]
        @ concat (map (section_lines env) (sorted_sections secs)))"

subsection \<open>The change audit\<close>

text \<open>
  The entries of the audit lists are dicts with fixed keys; they are tuples here:
  \<open>(section, source, title)\<close> for added and removed,
  \<open>(section, source_before, source_after, title)\<close> for modified,
  \<open>(section, policy, attempted_by)\<close> for a policy violation.
\<close>

type_synonym change_item = "string \<times> source \<times> string"
type_synonym modified_item = "string \<times> source \<times> source \<times> string"
type_synonym violation = "string \<times> string \<times> source"

record changes =
  added :: "change_item list"
  removed :: "change_item list"
  modified :: "modified_item list"
  conflicts :: "string list"
  policy_violations :: "violation list"

definition find_added :: "sections \<Rightarrow> sections \<Rightarrow> change_item list" where
  "find_added sections_before sections_after =
     map (\<lambda>key. (key, source (dict_get sections_after key), title (dict_get sections_after key)))
       (filter (\<lambda>key. \<not> dict_in key sections_before) (map fst sections_after))"

definition find_removed :: "sections \<Rightarrow> sections \<Rightarrow> change_item list" where
  "find_removed sections_before sections_after =
     map (\<lambda>key. (key, source (dict_get sections_before key),
                  title (dict_get sections_before key)))
       (filter (\<lambda>key. \<not> dict_in key sections_after) (map fst sections_before))"

definition find_modified :: "sections \<Rightarrow> sections \<Rightarrow> modified_item list" where
  "find_modified sections_before sections_after =
     map (\<lambda>key. (key, source (dict_get sections_before key),
                  source (dict_get sections_after key), title (dict_get sections_after key)))
       (filter (\<lambda>key. dict_in key sections_before
                       \<and> checksum (dict_get sections_after key)
                           \<noteq> checksum (dict_get sections_before key))
          (map fst sections_after))"

definition find_policy_violations :: "config \<Rightarrow> sections \<Rightarrow> sections \<Rightarrow> violation list" where
  "find_policy_violations cfg sections_before sections_after =
     (if company cfg \<noteq> None
      then map (\<lambda>(key, s). (key, ''Cannot override company policy'', source s))
             (filter (\<lambda>(key, s). source s = Project \<and> dict_in key sections_before
                        \<and> (let original = dict_get sections_before key
                           in source original = Company \<and> \<not> override_allowed original))
                sections_after)
      else [])"

definition analyze_changes :: "config \<Rightarrow> sections \<Rightarrow> sections \<Rightarrow> changes" where
  "analyze_changes cfg sections_before sections_after =
     \<lparr>added = find_added sections_before sections_after,
      removed = find_removed sections_before sections_after,
      modified = find_modified sections_before sections_after,
      conflicts = [],
      policy_violations = find_policy_violations cfg sections_before sections_after\<rparr>"

subsection \<open>The dry-run report\<close>

text \<open>Decimal digits of a length, as an f-string prints it.\<close>

fun str_nat :: "nat \<Rightarrow> string" where
  "str_nat n =
     (if n < 10 then [char_of (48 + n)] else str_nat (n div 10) @ [char_of (48 + n mod 10)])"

text \<open>\<open>content.split('\n')\<close>\<close>

fun split_lines :: "string \<Rightarrow> string list" where
  "split_lines [] = [[]]"
| "split_lines (c # cs) =
     (if c = newline then [] # split_lines cs
      else (case split_lines cs of [] \<Rightarrow> [[c]] | l # ls \<Rightarrow> (c # l) # ls))"

text \<open>The pictographs of the report, as the UTF-8 bytes of the source file.\<close>

definition check_mark :: string where
  "check_mark = [CHR 0xE2, CHR 0x9C, CHR 0x85]"

definition cross_mark :: string where
  "cross_mark = [CHR 0xE2, CHR 0x9D, CHR 0x8C]"

definition memo_sign :: string where
  "memo_sign = [CHR 0xF0, CHR 0x9F, CHR 0x93, CHR 0x9D]"

definition warning_sign :: string where
  "warning_sign = [CHR 0xE2, CHR 0x9A, CHR 0xA0, CHR 0xEF, CHR 0xB8, CHR 0x8F]"

definition no_entry_sign :: string where
  "no_entry_sign = [CHR 0xF0, CHR 0x9F, CHR 0x9A, CHR 0xAB]"

definition generate_dry_run_report :: "environ \<Rightarrow> changes \<Rightarrow> string \<Rightarrow> string" where
  "generate_dry_run_report env chg doc =
     join_lines
       ([replicate 60 (CHR ''=''), ''CLAUDE.md DRY RUN REPORT'', replicate 60 (CHR ''=''),
         ''Generated: '' @ now_report env, [],
         ''SUMMARY'', replicate 20 (CHR ''-''),
         check_mark @ '' Added sections: '' @ str_nat (length (added chg)),
         cross_mark @ '' Removed sections: '' @ str_nat (length (removed chg)),
         memo_sign @ '' Modified sections: '' @ str_nat (length (modified chg)),
         warning_sign @ ''  Conflicts: '' @ str_nat (length (conflicts chg)),
         no_entry_sign @ '' Policy violations: '' @ str_nat (length (policy_violations chg)),
         []]
        @ (if added chg \<noteq> []
           then [''ADDED SECTIONS'', replicate 20 (CHR ''-'')]
                @ map (\<lambda>(key, src, t). ''+ '' @ t @ '' (from: '' @ source_str src @ '')'')
                    (added chg)
                @ [[]]
           else [])
        @ (if removed chg \<noteq> []
           then [''REMOVED SECTIONS'', replicate 20 (CHR ''-'')]
                @ map (\<lambda>(key, src, t). ''- '' @ t @ '' (was from: '' @ source_str src @ '')'')
                    (removed chg)
                @ [[]]
           else [])
        @ (if modified chg \<noteq> []
           then [''MODIFIED SECTIONS'', replicate 20 (CHR ''-'')]
                @ concat (map (\<lambda>(key, src_before, src_after, t).
                                 [''~ '' @ t,
                                  ''  Before: '' @ source_str src_before,
                                  ''  After: '' @ source_str src_after])
                            (modified chg))
                @ [[]]
           else [])
        @ (if policy_violations chg \<noteq> []
           then [warning_sign @ ''  POLICY VIOLATIONS'', replicate 20 (CHR ''-'')]
                @ concat (map (\<lambda>(key, policy, by).
                                 [cross_mark @ '' Section: '' @ key,
                                  ''   Policy: '' @ policy,
                                  ''   Attempted by: '' @ source_str by])
                            (policy_violations chg))
                @ [[]]
           else [])
        @ [''PREVIEW (first 50 lines)'', replicate 20 (CHR ''-'')]
        @ take 50 (split_lines doc)
        @ (if length (split_lines doc) > 50 then [''... (truncated)''] else []))"

subsection \<open>The pipeline\<close>

datatype error = ValueError string

definition empty_project_dir :: project_dir where
  "empty_project_dir =
     \<lparr>overrides_md = None, developer_md = [], dry_run_report_txt = None,
      claude_md_preview = None\<rparr>"

text \<open>
  The first part of \<open>merge\<close>: the universal base is loaded and the tiers are applied in
  order. \<open>if username:\<close> holds for a name that is given and not empty.
\<close>

definition resolve ::
  "(string \<Rightarrow> string) \<Rightarrow> (string \<Rightarrow> string) \<Rightarrow> config \<Rightarrow> filesystem \<Rightarrow> string option
     \<Rightarrow> sections" where
  "resolve md5 lower cfg fs username =
     (let sections_original = load_universal_base md5 fs;
          secs = apply_company_overrides md5 lower cfg fs sections_original;
          secs = apply_project_customizations md5 fs secs
      in case username of
           None \<Rightarrow> secs
         | Some u \<Rightarrow> if u \<noteq> [] then apply_developer_preferences md5 cfg fs secs u else secs)"

text \<open>
  The second part of \<open>merge\<close>, from \<open>if dry_run:\<close> on. It returns what \<open>merge\<close> returns or
  raises, and the files as they are afterwards. \<open>mkdir(exist_ok=True)\<close> creates
  \<open>.claude-project\<close> when it is missing; \<open>rename\<close> moves the old destination onto the backup.
  Log and console output are not part of the state.
\<close>

definition finish ::
  "config \<Rightarrow> environ \<Rightarrow> filesystem \<Rightarrow> bool \<Rightarrow> sections \<Rightarrow> sections \<Rightarrow> string
     \<Rightarrow> (error + string) \<times> filesystem" where
  "finish cfg env fs dry_run sections_original secs doc =
     (if dry_run then
        (let chg = analyze_changes cfg sections_original secs;
             report = generate_dry_run_report env chg doc;
             dir = (case claude_project fs of None \<Rightarrow> empty_project_dir | Some d \<Rightarrow> d);
             dir = dir\<lparr>dry_run_report_txt := Some report\<rparr>;
             dir = dir\<lparr>claude_md_preview := Some doc\<rparr>
         in (Inr report, fs\<lparr>claude_project := Some dir\<rparr>))
      else
        (let chg = analyze_changes cfg sections_original secs
         in if policy_violations chg \<noteq> []
            then (Inl (ValueError
                    ''Policy violations prevent merge. Run with --dry-run to see details.''), fs)
            else
              (let fs = (case claude_md fs of
                           None \<Rightarrow> fs
                         | Some old \<Rightarrow> fs\<lparr>claude_md := None, claude_md_backup := Some old\<rparr>)
               in (Inr doc, fs\<lparr>claude_md := Some doc\<rparr>))))"

definition merge ::
  "(string \<Rightarrow> string) \<Rightarrow> (string \<Rightarrow> string) \<Rightarrow> config \<Rightarrow> environ \<Rightarrow> filesystem
     \<Rightarrow> string option \<Rightarrow> bool \<Rightarrow> (error + string) \<times> filesystem" where
  "merge md5 lower cfg env fs username dry_run =
     (let sections_original = load_universal_base md5 fs;
          secs = resolve md5 lower cfg fs username;
          doc = generate_claude_md env secs
      in finish cfg env fs dry_run sections_original secs doc)"

text \<open>
  The titles a template file contributes, and the two guards under which the developer tier
  is applied at all: \<open>if username:\<close> in \<open>merge\<close> and the \<open>developer_overrides.enabled\<close>
  test in \<open>apply_developer_preferences\<close>.
\<close>

definition heading_titles :: "heading list \<Rightarrow> string list" where
  "heading_titles hs = map (\<lambda>(lvl, t, body). t) hs"

definition individual_enabled :: "config \<Rightarrow> string option \<Rightarrow> bool" where
  "individual_enabled cfg username =
     ((case username of None \<Rightarrow> False | Some u \<Rightarrow> u \<noteq> [])
      \<and> (case project cfg of None \<Rightarrow> False | Some p \<Rightarrow> developer_overrides_enabled p))"

declare str_nat.simps [simp del]

subsection \<open>The ordering the specification describes\<close>

text \<open>
  The specification orders the rendered sections by level and then by identity, the key
  of the section in the mapping. This is that ordering, to be compared with
  \<open>sorted_sections\<close>.
\<close>

definition spec_tuple :: "string \<times> Section \<Rightarrow> int \<times> string" where
  "spec_tuple item = (level (snd item), fst item)"

definition spec_sorted_sections :: "sections \<Rightarrow> Section list" where
  "spec_sorted_sections secs = map snd (sort_key spec_tuple secs)"

subsection \<open>Example inputs\<close>

definition example_md5 :: "string \<Rightarrow> string" where
  "example_md5 body = ''md5:'' @ body"

text \<open>An instance of the parameter \<open>lower\<close> for the examples: it lowers the letters A to Z.\<close>

definition ascii_lower :: "string \<Rightarrow> string" where
  "ascii_lower s =
     map (\<lambda>c. let n = (of_char c :: nat) in if 65 \<le> n \<and> n \<le> 90 then char_of (n + 32) else c) s"

definition policy_section :: Section where
  "policy_section =
     \<lparr>title = ''A'', content = ''org'', level = 1, source = Company,
      checksum = ''md5:org'', override_allowed = False, metadata = []\<rparr>"

definition project_attempt :: Section where
  "project_attempt =
     \<lparr>title = ''A'', content = ''new'', level = 1, source = Project,
      checksum = ''md5:new'', override_allowed = True, metadata = []\<rparr>"

definition universal_section :: Section where
  "universal_section =
     \<lparr>title = ''A'', content = ''base'', level = 1, source = Universal,
      checksum = ''md5:base'', override_allowed = True, metadata = []\<rparr>"

definition locked_universal_section :: Section where
  "locked_universal_section =
     \<lparr>title = ''A'', content = ''base'', level = 1, source = Universal,
      checksum = ''md5:base'', override_allowed = False, metadata = []\<rparr>"

definition developer_attempt :: Section where
  "developer_attempt =
     \<lparr>title = ''A'', content = ''new'', level = 1, source = Developer,
      checksum = ''md5:new'', override_allowed = True, metadata = []\<rparr>"

definition example_cfg :: config where
  "example_cfg =
     \<lparr>company = Some \<lparr>roles = None\<rparr>,
      project = Some \<lparr>developer_overrides_enabled = True, primary_role = None\<rparr>\<rparr>"

text \<open>All four tiers have a section titled A.\<close>

definition example_fs :: filesystem where
  "example_fs =
     \<lparr>claude_system = \<lparr>core_md = Some [(1, ''A'', ''base'')], languages = None\<rparr>,
      claude_company = Some \<lparr>standards_md = Some [(1, ''A'', ''org'')]\<rparr>,
      claude_project =
        Some \<lparr>overrides_md = Some [(1, ''A'', ''new'')],
              developer_md = [(''dev'', [(1, ''A'', ''mine'')])],
              dry_run_report_txt = None, claude_md_preview = None\<rparr>,
      claude_md = None, claude_md_backup = None\<rparr>"

text \<open>No template exists at all.\<close>

definition empty_fs :: filesystem where
  "empty_fs =
     \<lparr>claude_system = \<lparr>core_md = None, languages = None\<rparr>,
      claude_company = None, claude_project = None,
      claude_md = None, claude_md_backup = None\<rparr>"

text \<open>Two language files, \<open>a.md\<close> with a heading Z and \<open>b.md\<close> with a heading A.\<close>

definition scoped_fs :: filesystem where
  "scoped_fs =
     \<lparr>claude_system =
        \<lparr>core_md = None,
         languages = Some [(''a'', [(1, ''Z'', [])]), (''b'', [(1, ''A'', [])])]\<rparr>,
      claude_company = None, claude_project = None,
      claude_md = None, claude_md_backup = None\<rparr>"

definition example_env :: environ where
  "example_env =
     \<lparr>now_content = ''2025-01-01 00:00:00'', now_report = ''2025-01-01 00:00:00'',
      claude_debug = False\<rparr>"

definition later_env :: environ where
  "later_env =
     \<lparr>now_content = ''2025-01-01 00:00:01'', now_report = ''2025-01-01 00:00:01'',
      claude_debug = False\<rparr>"

section \<open>Properties\<close>

subsection \<open>Dictionaries and the fold steps\<close>

lemma dict_set_lookup: "map_of (dict_set k v d) = (map_of d)(k \<mapsto> v)"
  by (induction d) auto

lemma dict_set_keys:
  "map fst (dict_set k v d) = (if k \<in> set (map fst d) then map fst d else map fst d @ [k])"
  by (induction d) auto

lemma dict_set_distinct: "distinct (map fst d) \<Longrightarrow> distinct (map fst (dict_set k v d))"
  by (simp add: dict_set_keys)

lemma dict_set_entries: "set (dict_set k v d) \<subseteq> insert (k, v) (set d)"
  by (induction d) auto

lemma universal_step_lookup: "map_of (universal_step M s) = (map_of M)(title s \<mapsto> s)"
  by (simp add: universal_step_def dict_set_lookup)

lemma company_step_lookup: "map_of (company_step M s) = (map_of M)(title s \<mapsto> s)"
  by (simp add: company_step_def dict_set_lookup)

lemma project_step_lookup:
  "map_of (project_step M s) =
     (case map_of M (title s) of
        Some e \<Rightarrow> if \<not> override_allowed e \<and> source e = Company then map_of M
                  else (map_of M)(title s \<mapsto> s)
      | None \<Rightarrow> (map_of M)(title s \<mapsto> s))"
  by (auto simp add: project_step_def dict_set_lookup dict_in_def dict_get_def Let_def
      split: option.splits)

lemma developer_step_lookup:
  "map_of (developer_step M s) =
     (case map_of M (title s) of
        Some e \<Rightarrow> if source e \<in> {Universal, Company} then map_of M
                  else (map_of M)(title s \<mapsto> s)
      | None \<Rightarrow> (map_of M)(title s \<mapsto> s))"
  by (auto simp add: developer_step_def dict_set_lookup dict_in_def dict_get_def Let_def
      split: option.splits)

lemma project_fold_retains:
  "map_of M k = Some e \<Longrightarrow> \<not> override_allowed e \<Longrightarrow> source e = Company
   \<Longrightarrow> map_of (foldl project_step M ss) k = Some e"
proof (induction ss arbitrary: M)
  case Nil
  then show ?case by simp
next
  case (Cons s ss)
  have "map_of (project_step M s) k = Some e"
    using Cons.prems by (auto simp add: project_step_lookup split: option.splits)
  then show ?case using Cons by simp
qed

lemma developer_fold_retains:
  "map_of M k = Some e \<Longrightarrow> source e \<in> {Universal, Company}
   \<Longrightarrow> map_of (foldl developer_step M ss) k = Some e"
proof (induction ss arbitrary: M)
  case Nil
  then show ?case by simp
next
  case (Cons s ss)
  have "map_of (developer_step M s) k = Some e"
    using Cons.prems by (auto simp add: developer_step_lookup split: option.splits)
  then show ?case using Cons by simp
qed

subsection \<open>The project tier and company policy\<close>

text \<open>
  C2. Whatever the accumulated mapping \<open>M\<close> and the incoming project section \<open>s\<close>: when
  \<open>M\<close> holds, under the title of \<open>s\<close>, a section of source company whose
  \<open>override_allowed\<close> is false, the loop body of \<open>apply_project_customizations\<close> leaves
  \<open>M\<close> as it is (\<open>s\<close> is not inserted), and after the whole project tier the entry is still
  the company section.
\<close>

theorem project_cannot_override_company_policy:
  assumes "map_of M (title s) = Some existing"
    and "\<not> override_allowed existing"
    and "source existing = Company"
  shows "project_step M s = M
         \<and> map_of (apply_project_customizations md5 fs M) (title s) = Some existing"
  using assms
  by (auto simp add: project_step_def dict_in_def dict_get_def apply_project_customizations_def
      project_fold_retains split: option.splits)

theorem project_cannot_override_company_policy_witness:
  "map_of [(''A'', policy_section)] (title project_attempt) = Some policy_section
   \<and> \<not> override_allowed policy_section
   \<and> source policy_section = Company
   \<and> project_step [(''A'', policy_section)] project_attempt = [(''A'', policy_section)]
   \<and> map_of (apply_project_customizations example_md5 example_fs [(''A'', policy_section)])
         (title project_attempt) = Some policy_section"
proof -
  have h1: "map_of [(''A'', policy_section)] (title project_attempt) = Some policy_section"
    by (simp add: project_attempt_def)
  have h2: "\<not> override_allowed policy_section"
    by (simp add: policy_section_def)
  have h3: "source policy_section = Company"
    by (simp add: policy_section_def)
  show ?thesis
    using h1 h2 h3
      project_cannot_override_company_policy [OF h1 h2 h3, of example_md5 example_fs]
    by simp
qed

subsection \<open>The developer tier\<close>

text \<open>
  C5. When the accumulated mapping holds, under the title of an incoming developer section
  \<open>s\<close>, a section of source universal or company, the loop body of
  \<open>apply_developer_preferences\<close> leaves the mapping as it is and the entry survives the whole
  developer tier, whatever its \<open>override_allowed\<close>. A developer section changes an existing
  entry only when that entry has source project or developer, and then the entry becomes \<open>s\<close>.
\<close>

theorem developer_cannot_override_upper_tiers:
  assumes "map_of M (title s) = Some existing"
  shows "(source existing \<in> {Universal, Company} \<longrightarrow>
            developer_step M s = M
            \<and> map_of (apply_developer_preferences md5 cfg fs M username) (title s)
                = Some existing)
         \<and> (map_of (developer_step M s) (title s) \<noteq> Some existing \<longrightarrow>
            source existing \<in> {Project, Developer}
            \<and> map_of (developer_step M s) (title s) = Some s)"
proof (intro conjI impI)
  assume up: "source existing \<in> {Universal, Company}"
  show "developer_step M s = M"
    using assms up by (simp add: developer_step_def dict_in_def dict_get_def)
  show "map_of (apply_developer_preferences md5 cfg fs M username) (title s) = Some existing"
    using assms up
    by (simp add: apply_developer_preferences_def developer_fold_retains split: option.splits)
next
  assume ch: "map_of (developer_step M s) (title s) \<noteq> Some existing"
  then have nup: "source existing \<notin> {Universal, Company}"
    using assms by (auto simp add: developer_step_lookup)
  then show "source existing \<in> {Project, Developer}"
    by (cases "source existing") auto
  show "map_of (developer_step M s) (title s) = Some s"
    using assms nup by (simp add: developer_step_lookup)
qed

theorem developer_cannot_override_upper_tiers_witness:
  "map_of [(''A'', universal_section)] (title developer_attempt) = Some universal_section
   \<and> override_allowed universal_section
   \<and> source universal_section \<in> {Universal, Company}
   \<and> developer_step [(''A'', universal_section)] developer_attempt
       = [(''A'', universal_section)]
   \<and> map_of (apply_developer_preferences example_md5 example_cfg example_fs
               [(''A'', universal_section)] ''dev'') (title developer_attempt)
       = Some universal_section
   \<and> map_of [(''A'', project_attempt)] (title developer_attempt) = Some project_attempt
   \<and> map_of (developer_step [(''A'', project_attempt)] developer_attempt)
        (title developer_attempt) \<noteq> Some project_attempt
   \<and> source project_attempt \<in> {Project, Developer}
   \<and> map_of (developer_step [(''A'', project_attempt)] developer_attempt)
        (title developer_attempt) = Some developer_attempt"
proof -
  have h1: "map_of [(''A'', universal_section)] (title developer_attempt)
            = Some universal_section"
    by (simp add: developer_attempt_def)
  have h2: "source universal_section \<in> {Universal, Company}"
    by (simp add: universal_section_def)
  have h3: "map_of [(''A'', project_attempt)] (title developer_attempt) = Some project_attempt"
    by (simp add: developer_attempt_def)
  have h4: "map_of (developer_step [(''A'', project_attempt)] developer_attempt)
              (title developer_attempt) \<noteq> Some project_attempt"
    by (simp add: developer_step_lookup developer_attempt_def project_attempt_def)
  have h5: "override_allowed universal_section"
    by (simp add: universal_section_def)
  show ?thesis
    using h1 h2 h3 h4 h5
      developer_cannot_override_upper_tiers
        [OF h1, of example_md5 example_cfg example_fs "''dev''"]
      developer_cannot_override_upper_tiers
        [OF h3, of example_md5 example_cfg example_fs "''dev''"]
    by simp
qed

subsection \<open>Replacement does not look at the content\<close>

text \<open>
  C9. In every tier the loop body replaces the entry of an incoming section's title by the
  incoming section, with its source, checksum and \<open>override_allowed\<close>, also when the
  incoming body equals the body of the entry: the universal and company tiers always, the
  project tier unless the entry is a company section that may not be overridden, the
  developer tier unless the entry is a universal or company section. The two rejections
  never consult the content.
\<close>

theorem same_content_still_replaces:
  assumes "map_of M (title s) = Some existing"
    and "content s = content existing"
  shows "map_of (universal_step M s) (title s) = Some s
         \<and> map_of (company_step M s) (title s) = Some s
         \<and> (\<not> (\<not> override_allowed existing \<and> source existing = Company) \<longrightarrow>
              map_of (project_step M s) (title s) = Some s)
         \<and> (source existing \<notin> {Universal, Company} \<longrightarrow>
              map_of (developer_step M s) (title s) = Some s)"
  using assms
  by (simp add: universal_step_lookup company_step_lookup project_step_lookup
      developer_step_lookup)

theorem same_content_still_replaces_witness:
  "map_of [(''A'', project_attempt)] (title developer_attempt) = Some project_attempt
   \<and> content developer_attempt = content project_attempt
   \<and> \<not> (\<not> override_allowed project_attempt \<and> source project_attempt = Company)
   \<and> source project_attempt \<notin> {Universal, Company}
   \<and> map_of (universal_step [(''A'', project_attempt)] developer_attempt)
        (title developer_attempt) = Some developer_attempt
   \<and> map_of (company_step [(''A'', project_attempt)] developer_attempt)
        (title developer_attempt) = Some developer_attempt
   \<and> map_of (project_step [(''A'', project_attempt)] developer_attempt)
        (title developer_attempt) = Some developer_attempt
   \<and> map_of (developer_step [(''A'', project_attempt)] developer_attempt)
        (title developer_attempt) = Some developer_attempt
   \<and> source developer_attempt \<noteq> source project_attempt"
proof -
  have h1: "map_of [(''A'', project_attempt)] (title developer_attempt) = Some project_attempt"
    by (simp add: developer_attempt_def)
  have h2: "content developer_attempt = content project_attempt"
    by (simp add: developer_attempt_def project_attempt_def)
  have h3: "\<not> (\<not> override_allowed project_attempt \<and> source project_attempt = Company)"
    by (simp add: project_attempt_def)
  have h4: "source project_attempt \<notin> {Universal, Company}"
    by (simp add: project_attempt_def)
  have h5: "source developer_attempt \<noteq> source project_attempt"
    by (simp add: developer_attempt_def project_attempt_def)
  show ?thesis
    using h1 h2 h3 h4 h5 same_content_still_replaces [OF h1 h2]
    by simp
qed

subsection \<open>Where \<open>override_allowed\<close> is consulted\<close>

text \<open>
  C10. For an incoming section \<open>s\<close> whose title has an entry in the accumulated mapping: the
  company tier replaces the entry whatever its \<open>override_allowed\<close>; the project tier keeps
  the entry exactly when it has source company and \<open>override_allowed\<close> false, and replaces
  it otherwise (so a universal or project entry with \<open>override_allowed\<close> false is
  replaced); the developer tier keeps the entry exactly when it has source universal or
  company, whatever its \<open>override_allowed\<close>.
\<close>

theorem override_allowed_only_guards_company_from_project:
  assumes "map_of M (title s) = Some existing"
  shows "map_of (company_step M s) (title s) = Some s
         \<and> map_of (project_step M s) (title s)
             = (if source existing = Company \<and> \<not> override_allowed existing
                then Some existing else Some s)
         \<and> map_of (developer_step M s) (title s)
             = (if source existing \<in> {Universal, Company} then Some existing else Some s)"
  using assms
  by (simp add: company_step_lookup project_step_lookup developer_step_lookup)

theorem override_allowed_only_guards_company_from_project_witness:
  "map_of [(''A'', locked_universal_section)] (title project_attempt)
     = Some locked_universal_section
   \<and> \<not> override_allowed locked_universal_section
   \<and> map_of (company_step [(''A'', locked_universal_section)] project_attempt)
        (title project_attempt) = Some project_attempt
   \<and> map_of (project_step [(''A'', locked_universal_section)] project_attempt)
        (title project_attempt) = Some project_attempt
   \<and> map_of (developer_step [(''A'', locked_universal_section)] project_attempt)
        (title project_attempt) = Some locked_universal_section"
proof -
  have h1: "map_of [(''A'', locked_universal_section)] (title project_attempt)
            = Some locked_universal_section"
    by (simp add: project_attempt_def)
  have h2: "\<not> override_allowed locked_universal_section"
    by (simp add: locked_universal_section_def)
  have h3: "source locked_universal_section = Universal"
    by (simp add: locked_universal_section_def)
  show ?thesis
    using h1 h2 h3 override_allowed_only_guards_company_from_project [OF h1]
    by simp
qed

subsection \<open>Policy violations in the change audit\<close>

text \<open>
  C1. The specification asks for exactly one policy violation entry, attributed to the
  project tier, whenever a project section targets a company section that may not be
  overridden. The merger attempts this: the project loop logs \<open>Cannot override company
  policy\<close> when it skips such a section, \<open>analyze_changes\<close> builds entries with that same
  policy text and \<open>attempted_by\<close>, and \<open>merge\<close> aborts on them. It misses: the skipped
  section leaves no record, and \<open>analyze_changes\<close> only looks for sections that have
  source project after the fold. At the following input the mapping holds a company section A
  with \<open>override_allowed\<close> false, the project file has a section A, the project tier skips
  it, and the audit of the result has no policy violation, whether the baseline is the
  company mapping or a universal one.
\<close>

theorem rejected_override_reports_no_violation:
  "map_of [(''A'', policy_section)] ''A'' = Some policy_section
   \<and> source policy_section = Company
   \<and> \<not> override_allowed policy_section
   \<and> overrides_md (the (claude_project example_fs)) = Some [(1, ''A'', ''new'')]
   \<and> parse_markdown_sections example_md5 [(1, ''A'', ''new'')] Project = [project_attempt]
   \<and> apply_project_customizations example_md5 example_fs [(''A'', policy_section)]
       = [(''A'', policy_section)]
   \<and> policy_violations
         (analyze_changes example_cfg [(''A'', policy_section)]
            (apply_project_customizations example_md5 example_fs [(''A'', policy_section)]))
       = []
   \<and> policy_violations
         (analyze_changes example_cfg [(''A'', universal_section)]
            (apply_project_customizations example_md5 example_fs [(''A'', policy_section)]))
       = []"
  by (simp add: policy_section_def universal_section_def project_attempt_def example_fs_def example_cfg_def
      example_md5_def apply_project_customizations_def parse_markdown_sections_def
      post_init_def project_step_def dict_in_def dict_get_def analyze_changes_def
      find_policy_violations_def)

subsection \<open>Writes to the destination\<close>

text \<open>
  C3. A dry run leaves the destination \<open>CLAUDE.md\<close> and its backup as they were, whatever
  the inputs and whatever the audit finds (it writes the report and the preview under
  \<open>.claude-project\<close> only). In commit mode, when the audit has a policy violation, \<open>merge\<close>
  raises \<open>ValueError\<close> and no file has changed; \<open>merge\<close> has no acknowledgment parameter.
  The second statement is about the part of \<open>merge\<close> from \<open>if dry_run:\<close> on, given any
  baseline and resolved mapping.
\<close>

theorem no_destination_write:
  "claude_md (snd (finish cfg env fs True sections_original secs doc)) = claude_md fs
   \<and> claude_md_backup (snd (finish cfg env fs True sections_original secs doc))
       = claude_md_backup fs
   \<and> claude_md (snd (merge md5 lower cfg env fs username True)) = claude_md fs
   \<and> claude_md_backup (snd (merge md5 lower cfg env fs username True)) = claude_md_backup fs
   \<and> (policy_violations (analyze_changes cfg sections_original secs) \<noteq> [] \<longrightarrow>
        finish cfg env fs False sections_original secs doc
          = (Inl (ValueError
                ''Policy violations prevent merge. Run with --dry-run to see details.''), fs))"
  by (simp add: finish_def merge_def Let_def)

theorem no_destination_write_witness:
  "policy_violations (analyze_changes example_cfg [(''A'', policy_section)] [(''A'', project_attempt)]) \<noteq> []
   \<and> finish example_cfg example_env example_fs False [(''A'', policy_section)]
         [(''A'', project_attempt)] ''doc''
       = (Inl (ValueError
            ''Policy violations prevent merge. Run with --dry-run to see details.''), example_fs)
   \<and> claude_md (snd (merge example_md5 ascii_lower example_cfg example_env example_fs None True)) = None"
proof -
  have h: "policy_violations (analyze_changes example_cfg [(''A'', policy_section)] [(''A'', project_attempt)]) \<noteq> []"
    by (simp add: analyze_changes_def find_policy_violations_def example_cfg_def
        project_attempt_def policy_section_def dict_in_def dict_get_def)
  have c: "claude_md example_fs = None" by (simp add: example_fs_def)
  show ?thesis
    using h c no_destination_write [of example_cfg example_env example_fs "[(''A'', policy_section)]"
        "[(''A'', project_attempt)]" "''doc''" example_md5 ascii_lower None]
    by simp
qed

subsection \<open>Precedence of the tiers\<close>

lemma parse_props:
  "s \<in> set (parse_markdown_sections md5 hs src) \<Longrightarrow> source s = src \<and> override_allowed s"
  by (auto simp add: parse_markdown_sections_def post_init_def)

lemma parse_titles:
  "map title (parse_markdown_sections md5 hs src) = heading_titles hs"
  by (auto simp add: parse_markdown_sections_def heading_titles_def post_init_def)

lemma fold_entries:
  assumes step: "\<And>M s. set (step M s) \<subseteq> insert (key s, upd s) (set M)"
  shows "set (foldl step M ss) \<subseteq> set M \<union> (\<lambda>s. (key s, upd s)) ` set ss"
proof (induction ss arbitrary: M)
  case Nil
  then show ?case by simp
next
  case (Cons s ss)
  have "set (foldl step (step M s) ss) \<subseteq> set (step M s) \<union> (\<lambda>s. (key s, upd s)) ` set ss"
    by (rule Cons.IH)
  then show ?case using step [of M s] by auto
qed

lemma universal_step_entries: "set (universal_step M s) \<subseteq> insert (title s, s) (set M)"
  by (simp add: universal_step_def dict_set_entries)

lemma language_step_entries:
  "set (language_step stem M s)
     \<subseteq> insert (stem @ '':'' @ title s, s\<lparr>metadata := dict_set ''language'' stem (metadata s)\<rparr>)
         (set M)"
  using dict_set_entries by (simp add: language_step_def Let_def)

lemma company_step_entries: "set (company_step M s) \<subseteq> insert (title s, s) (set M)"
  using dict_set_entries by (simp add: company_step_def)

lemma project_step_entries: "set (project_step M s) \<subseteq> insert (title s, s) (set M)"
  using dict_set_entries [of "title s" s M] by (auto simp add: project_step_def)

lemma developer_step_entries: "set (developer_step M s) \<subseteq> insert (title s, s) (set M)"
  using dict_set_entries [of "title s" s M] by (auto simp add: developer_step_def)

lemma language_file_step_universal:
  assumes "\<forall>p \<in> set M. source (snd p) = Universal \<and> override_allowed (snd p)"
  shows "\<forall>p \<in> set (language_file_step md5 M f).
           source (snd p) = Universal \<and> override_allowed (snd p)"
proof
  fix p assume "p \<in> set (language_file_step md5 M f)"
  then have "p \<in> set M \<union> (\<lambda>s. (fst f @ '':'' @ title s,
                 s\<lparr>metadata := dict_set ''language'' (fst f) (metadata s)\<rparr>))
               ` set (parse_markdown_sections md5 (snd f) Universal)"
    using fold_entries [of "language_step (fst f)", OF language_step_entries]
    unfolding language_file_step_def by blast
  then show "source (snd p) = Universal \<and> override_allowed (snd p)"
    using assms parse_props by auto
qed

lemma language_files_universal:
  "\<forall>p \<in> set M. source (snd p) = Universal \<and> override_allowed (snd p)
   \<Longrightarrow> \<forall>p \<in> set (foldl (language_file_step md5) M files).
         source (snd p) = Universal \<and> override_allowed (snd p)"
proof (induction files arbitrary: M)
  case Nil
  then show ?case by simp
next
  case (Cons f files)
  have "\<forall>p \<in> set (language_file_step md5 M f).
          source (snd p) = Universal \<and> override_allowed (snd p)"
    using Cons.prems by (rule language_file_step_universal)
  then have "\<forall>p \<in> set (foldl (language_file_step md5) (language_file_step md5 M f) files).
          source (snd p) = Universal \<and> override_allowed (snd p)"
    by (rule Cons.IH)
  then show ?case by simp
qed

lemma core_universal:
  "\<forall>p \<in> set (foldl universal_step [] (parse_markdown_sections md5 hs Universal)).
      source (snd p) = Universal \<and> override_allowed (snd p)"
proof
  fix p assume "p \<in> set (foldl universal_step [] (parse_markdown_sections md5 hs Universal))"
  then have "p \<in> (\<lambda>s. (title s, s)) ` set (parse_markdown_sections md5 hs Universal)"
    using fold_entries [of universal_step title "\<lambda>s. s" "[]", OF universal_step_entries]
    by auto
  then show "source (snd p) = Universal \<and> override_allowed (snd p)"
    using parse_props by auto
qed

lemma universal_base_entries:
  assumes p: "p \<in> set (load_universal_base md5 fs)"
  shows "source (snd p) = Universal \<and> override_allowed (snd p)"
proof -
  define base where "base = (case core_md (claude_system fs) of None \<Rightarrow> []
             | Some hs \<Rightarrow> foldl universal_step [] (parse_markdown_sections md5 hs Universal))"
  have base: "\<forall>p \<in> set base. source (snd p) = Universal \<and> override_allowed (snd p)"
  proof (cases "core_md (claude_system fs)")
    case None
    then show ?thesis by (simp add: base_def)
  next
    case (Some hs)
    then show ?thesis using core_universal [of md5 hs] by (simp add: base_def)
  qed
  have eq: "load_universal_base md5 fs =
              (case languages (claude_system fs) of
                 None \<Rightarrow> base
               | Some files \<Rightarrow> foldl (language_file_step md5) base files)"
    by (simp add: load_universal_base_def base_def Let_def split: option.splits)
  show ?thesis
  proof (cases "languages (claude_system fs)")
    case None
    then have "p \<in> set base" using p eq by simp
    then show ?thesis using base by blast
  next
    case (Some files)
    then have "p \<in> set (foldl (language_file_step md5) base files)" using p eq by simp
    then show ?thesis using language_files_universal [OF base, of md5 files] by blast
  qed
qed

lemma apply_role_filters_entries: "p \<in> set (apply_role_filters lower cfg M) \<Longrightarrow> p \<in> set M"
  by (auto simp add: apply_role_filters_def Let_def split: option.splits)

lemma company_fold_allowed:
  assumes "\<forall>p \<in> set M. override_allowed (snd p)"
  shows "\<forall>p \<in> set (foldl company_step M (parse_markdown_sections md5 hs Company)).
           override_allowed (snd p)"
proof
  fix p assume "p \<in> set (foldl company_step M (parse_markdown_sections md5 hs Company))"
  then have "p \<in> set M \<union> (\<lambda>s. (title s, s)) ` set (parse_markdown_sections md5 hs Company)"
    using fold_entries [of company_step title "\<lambda>s. s", OF company_step_entries] by blast
  then show "override_allowed (snd p)" using assms parse_props by auto
qed

lemma apply_company_overrides_allowed:
  assumes M: "\<forall>p \<in> set M. override_allowed (snd p)"
  shows "\<forall>p \<in> set (apply_company_overrides md5 lower cfg fs M). override_allowed (snd p)"
proof (cases "claude_company fs")
  case None
  then show ?thesis using M by (simp add: apply_company_overrides_def)
next
  case (Some dir)
  define secs where "secs = (case standards_md dir of None \<Rightarrow> M
      | Some hs \<Rightarrow> foldl company_step M (parse_markdown_sections md5 hs Company))"
  have secs: "\<forall>p \<in> set secs. override_allowed (snd p)"
  proof (cases "standards_md dir")
    case None
    then show ?thesis using M by (simp add: secs_def)
  next
    case (Some hs)
    then show ?thesis using company_fold_allowed [OF M, of md5 hs] by (simp add: secs_def)
  qed
  have "apply_company_overrides md5 lower cfg fs M = secs
        \<or> apply_company_overrides md5 lower cfg fs M = apply_role_filters lower cfg secs"
    using Some by (simp add: apply_company_overrides_def secs_def Let_def)
  then show ?thesis using secs apply_role_filters_entries [of _ lower cfg secs] by auto
qed


lemma project_step_other: "title s \<noteq> k \<Longrightarrow> map_of (project_step M s) k = map_of M k"
  by (simp add: project_step_lookup split: option.splits)

lemma developer_step_other: "title s \<noteq> k \<Longrightarrow> map_of (developer_step M s) k = map_of M k"
  by (simp add: developer_step_lookup split: option.splits)

lemma project_fold_allowed:
  assumes M: "\<forall>p \<in> set M. override_allowed (snd p)"
    and ss: "\<forall>s \<in> set ss. override_allowed s"
  shows "\<forall>p \<in> set (foldl project_step M ss). override_allowed (snd p)"
proof
  fix p assume "p \<in> set (foldl project_step M ss)"
  then have "p \<in> set M \<union> (\<lambda>s. (title s, s)) ` set ss"
    using fold_entries [of project_step title "\<lambda>s. s", OF project_step_entries] by blast
  then show "override_allowed (snd p)" using M ss by auto
qed

lemma project_fold_sets:
  assumes M: "\<forall>p \<in> set M. override_allowed (snd p)"
  shows "\<forall>s \<in> set ss. override_allowed s \<and> source s = Project \<Longrightarrow> k \<in> title ` set ss
         \<Longrightarrow> \<exists>s. map_of (foldl project_step M ss) k = Some s
                  \<and> source s = Project \<and> override_allowed s"
proof (induction ss rule: rev_induct)
  case Nil
  then show ?case by simp
next
  case (snoc x xs)
  let ?M = "foldl project_step M xs"
  have xs: "\<forall>s \<in> set xs. override_allowed s \<and> source s = Project"
    using snoc.prems(1) by simp
  have x: "override_allowed x" "source x = Project"
    using snoc.prems(1) by simp_all
  have allowed: "\<forall>p \<in> set ?M. override_allowed (snd p)"
    using project_fold_allowed [OF M, of xs] xs by blast
  show ?case
  proof (cases "title x = k")
    case True
    have "map_of (project_step ?M x) k = Some x"
    proof (cases "map_of ?M k")
      case None
      then show ?thesis using True by (simp add: project_step_lookup)
    next
      case (Some e)
      then have "(k, e) \<in> set ?M" by (rule map_of_SomeD)
      then have "override_allowed e" using allowed by auto
      then show ?thesis using True Some by (simp add: project_step_lookup)
    qed
    then show ?thesis using x by simp
  next
    case False
    then have "k \<in> title ` set xs" using snoc.prems(2) by auto
    then obtain s where "map_of ?M k = Some s" "source s = Project" "override_allowed s"
      using snoc.IH xs by blast
    then show ?thesis using False by (simp add: project_step_other)
  qed
qed

lemma developer_fold_sets:
  assumes M: "map_of M k = Some p" "source p \<in> {Project, Developer}" "override_allowed p"
  shows "\<forall>s \<in> set ds. override_allowed s \<and> source s = Developer
         \<Longrightarrow> \<exists>s. map_of (foldl developer_step M ds) k = Some s
                  \<and> source s \<in> {Project, Developer} \<and> override_allowed s
                  \<and> (k \<in> title ` set ds \<longrightarrow> source s = Developer)"
proof (induction ds rule: rev_induct)
  case Nil
  then show ?case using M by simp
next
  case (snoc x xs)
  let ?M = "foldl developer_step M xs"
  have x: "override_allowed x" "source x = Developer"
    using snoc.prems by simp_all
  obtain s where s: "map_of ?M k = Some s" "source s \<in> {Project, Developer}"
      "override_allowed s" "k \<in> title ` set xs \<longrightarrow> source s = Developer"
    using snoc by auto
  show ?case
  proof (cases "title x = k")
    case True
    have "map_of (developer_step ?M x) k = Some x"
      using True s by (auto simp add: developer_step_lookup)
    then show ?thesis using x by simp
  next
    case False
    then have "map_of (developer_step ?M x) k = Some s"
      using s by (simp add: developer_step_other)
    then show ?thesis using s False by auto
  qed
qed

lemma resolve_not_enabled:
  "\<not> individual_enabled cfg username \<Longrightarrow>
   resolve md5 lower cfg fs username
     = apply_project_customizations md5 fs
         (apply_company_overrides md5 lower cfg fs (load_universal_base md5 fs))"
  by (auto simp add: individual_enabled_def resolve_def Let_def apply_developer_preferences_def
      split: option.splits)

text \<open>
  C6. A section whose title the project overrides file has (and, when the developer tier is
  enabled, the developer's file as well) resolves to source developer when the developer
  tier is enabled and to source project when it is not; in particular for a title that the
  universal and company tiers have too. Every section \<open>parse_markdown_sections\<close> builds
  has \<open>override_allowed\<close> true, so no step of this chain is rejected, and the role filter,
  which runs after the company tier only, cannot remove what the project tier sets. The
  project tier is applied in every run, so with the section present there the result is
  never left at company or universal.
\<close>

theorem precedence_project_then_developer:
  assumes proj: "claude_project fs = Some pdir" "overrides_md pdir = Some phs"
      "k \<in> set (heading_titles phs)"
    and dev: "individual_enabled cfg username \<longrightarrow>
               (\<exists>u dhs. username = Some u \<and> map_of (developer_md pdir) u = Some dhs
                  \<and> k \<in> set (heading_titles dhs))"
  shows "\<exists>s. map_of (resolve md5 lower cfg fs username) k = Some s
              \<and> source s = (if individual_enabled cfg username then Developer else Project)"
proof -
  let ?base = "load_universal_base md5 fs"
  let ?company = "apply_company_overrides md5 lower cfg fs ?base"
  let ?project = "apply_project_customizations md5 fs ?company"
  have "\<forall>p \<in> set ?base. override_allowed (snd p)"
    using universal_base_entries by blast
  then have company: "\<forall>p \<in> set ?company. override_allowed (snd p)"
    by (rule apply_company_overrides_allowed)
  have project_eq: "?project = foldl project_step ?company (parse_markdown_sections md5 phs Project)"
    using proj by (simp add: apply_project_customizations_def)
  have "k \<in> title ` set (parse_markdown_sections md5 phs Project)"
    using proj(3) parse_titles [of md5 phs Project] by (metis list.set_map)
  then obtain s where s: "map_of ?project k = Some s" "source s = Project" "override_allowed s"
    using project_fold_sets [OF company, of "parse_markdown_sections md5 phs Project" k]
      parse_props project_eq by metis
  show ?thesis
  proof (cases "individual_enabled cfg username")
    case False
    then show ?thesis using s resolve_not_enabled [of cfg username md5 lower fs] by simp
  next
    case True
    then obtain u dhs where u: "username = Some u" "map_of (developer_md pdir) u = Some dhs"
        "k \<in> set (heading_titles dhs)"
      using dev by blast
    have en: "u \<noteq> []" "case project cfg of None \<Rightarrow> False | Some p \<Rightarrow> developer_overrides_enabled p"
      using True u by (simp_all add: individual_enabled_def)
    have res: "resolve md5 lower cfg fs username
                 = foldl developer_step ?project (parse_markdown_sections md5 dhs Developer)"
      using u en proj by (simp add: resolve_def Let_def apply_developer_preferences_def)
    have kd: "k \<in> title ` set (parse_markdown_sections md5 dhs Developer)"
      using u(3) parse_titles [of md5 dhs Developer] by (metis list.set_map)
    have "\<forall>s \<in> set (parse_markdown_sections md5 dhs Developer).
            override_allowed s \<and> source s = Developer"
      using parse_props by blast
    then obtain s' where "map_of (foldl developer_step ?project
                                    (parse_markdown_sections md5 dhs Developer)) k = Some s'"
        "source s' = Developer"
      using developer_fold_sets [of ?project k s "parse_markdown_sections md5 dhs Developer"]
        s kd by auto
    then show ?thesis using True res by simp
  qed
qed

theorem precedence_project_then_developer_witness:
  "dict_in ''A'' (load_universal_base example_md5 example_fs)
   \<and> standards_md (the (claude_company example_fs)) = Some [(1, ''A'', ''org'')]
   \<and> overrides_md (the (claude_project example_fs)) = Some [(1, ''A'', ''new'')]
   \<and> ''A'' \<in> set (heading_titles [(1, ''A'', ''new'')])
   \<and> individual_enabled example_cfg (Some ''dev'')
   \<and> map_of (developer_md (the (claude_project example_fs))) ''dev'' = Some [(1, ''A'', ''mine'')]
   \<and> (\<exists>s. map_of (resolve example_md5 ascii_lower example_cfg example_fs (Some ''dev'')) ''A'' = Some s
            \<and> source s = Developer)
   \<and> \<not> individual_enabled example_cfg None
   \<and> (\<exists>s. map_of (resolve example_md5 ascii_lower example_cfg example_fs None) ''A'' = Some s
            \<and> source s = Project)"
proof -
  define pdir where "pdir = the (claude_project example_fs)"
  have p1: "claude_project example_fs = Some pdir"
    by (simp add: pdir_def example_fs_def)
  have p2: "overrides_md pdir = Some [(1, ''A'', ''new'')]"
    by (simp add: pdir_def example_fs_def)
  have p3: "''A'' \<in> set (heading_titles [(1, ''A'', ''new'')])"
    by (simp add: heading_titles_def)
  have dv: "map_of (developer_md pdir) ''dev'' = Some [(1, ''A'', ''mine'')]"
    by (simp add: pdir_def example_fs_def)
  have en: "individual_enabled example_cfg (Some ''dev'')"
    by (simp add: individual_enabled_def example_cfg_def)
  have dis: "\<not> individual_enabled example_cfg None"
    by (simp add: individual_enabled_def)
  have d1: "individual_enabled example_cfg (Some ''dev'') \<longrightarrow>
              (\<exists>u dhs. Some ''dev'' = Some u \<and> map_of (developer_md pdir) u = Some dhs
                 \<and> ''A'' \<in> set (heading_titles dhs))"
    using dv by (simp add: heading_titles_def)
  have d2: "individual_enabled example_cfg None \<longrightarrow>
              (\<exists>u dhs. None = Some u \<and> map_of (developer_md pdir) u = Some dhs
                 \<and> ''A'' \<in> set (heading_titles dhs))"
    using dis by simp
  have u: "dict_in ''A'' (load_universal_base example_md5 example_fs)"
    by (simp add: dict_in_def load_universal_base_def example_fs_def
        parse_markdown_sections_def universal_step_def post_init_def)
  have c: "standards_md (the (claude_company example_fs)) = Some [(1, ''A'', ''org'')]"
    by (simp add: example_fs_def)
  show ?thesis
    using u c p2 p3 dv en dis
      precedence_project_then_developer [OF p1 p2 p3 d1, of example_md5 ascii_lower]
      precedence_project_then_developer [OF p1 p2 p3 d2, of example_md5 ascii_lower]
    by (simp add: pdir_def)
qed

subsection \<open>The order of the rendered sections\<close>

lemma insort_key_map:
  "insort_key f (g x) (map g ys) = map g (insort_key (\<lambda>a. f (g a)) x ys)"
  by (induction ys) auto

lemma sort_key_map: "sort_key f (map g xs) = map g (sort_key (\<lambda>a. f (g a)) xs)"
  by (induction xs) (auto simp add: insort_key_map)

lemma insort_key_agree:
  "f x = g x \<Longrightarrow> \<forall>y \<in> set ys. f y = g y \<Longrightarrow> insort_key f x ys = insort_key g x ys"
  by (induction ys) auto

lemma sort_key_agree: "\<forall>x \<in> set xs. f x = g x \<Longrightarrow> sort_key f xs = sort_key g xs"
proof (induction xs)
  case Nil
  then show ?case by simp
next
  case (Cons x xs)
  have rest: "\<forall>y \<in> set xs. f y = g y" using Cons.prems by simp
  have ih: "sort_key f xs = sort_key g xs" using rest by (rule Cons.IH)
  have x: "f x = g x" using Cons.prems by simp
  have sorted_rest: "\<forall>y \<in> set (sort_key g xs). f y = g y" using rest by simp
  have "insort_key f x (sort_key g xs) = insort_key g x (sort_key g xs)"
    using x sorted_rest by (rule insort_key_agree)
  then show ?case using ih by simp
qed

text \<open>
  C8, as the specification states it, fails. The rendering loop runs over
  \<open>sorted(sections.values(), key=lambda s: (s.level, s.title))\<close>: the second sort key is the
  title, not the key of the mapping. With the language files \<open>a.md\<close> (heading Z) and
  \<open>b.md\<close> (heading A) the mapping has the identities \<open>a:Z\<close> and \<open>b:A\<close>, both of level 1;
  the document renders A (identity \<open>b:A\<close>) before Z (identity \<open>a:Z\<close>), although
  \<open>a:Z\<close> is the smaller identity.
\<close>

theorem composite_identities_not_in_identity_order:
  "map fst (load_universal_base example_md5 scoped_fs) = [''a:Z'', ''b:A'']
   \<and> map title (map snd (load_universal_base example_md5 scoped_fs)) = [''Z'', ''A'']
   \<and> map level (map snd (load_universal_base example_md5 scoped_fs)) = [1, 1]
   \<and> ''a:Z'' < ''b:A''
   \<and> map metadata (sorted_sections (load_universal_base example_md5 scoped_fs))
       = [[(''language'', ''b'')], [(''language'', ''a'')]]
   \<and> map title (sorted_sections (load_universal_base example_md5 scoped_fs)) = [''A'', ''Z'']
   \<and> map title (spec_sorted_sections (load_universal_base example_md5 scoped_fs))
       = [''Z'', ''A'']
   \<and> sorted_sections (load_universal_base example_md5 scoped_fs)
       \<noteq> spec_sorted_sections (load_universal_base example_md5 scoped_fs)"
proof -
  have base: "load_universal_base example_md5 scoped_fs =
      [(''a:Z'', \<lparr>title = ''Z'', content = [], level = 1, source = Universal,
                  checksum = ''md5:'', override_allowed = True,
                  metadata = [(''language'', ''a'')]\<rparr>),
       (''b:A'', \<lparr>title = ''A'', content = [], level = 1, source = Universal,
                  checksum = ''md5:'', override_allowed = True,
                  metadata = [(''language'', ''b'')]\<rparr>)]"
    by (simp add: load_universal_base_def scoped_fs_def language_file_step_def
        language_step_def parse_markdown_sections_def post_init_def example_md5_def Let_def)
  have lt: "''a:Z'' < ''b:A''"
    by simp
  have code: "map title (sorted_sections (load_universal_base example_md5 scoped_fs))
              = [''A'', ''Z'']"
    unfolding base by (simp add: sorted_sections_def sort_tuple_def)
  have meta: "map metadata (sorted_sections (load_universal_base example_md5 scoped_fs))
              = [[(''language'', ''b'')], [(''language'', ''a'')]]"
    unfolding base by (simp add: sorted_sections_def sort_tuple_def)
  have spec: "map title (spec_sorted_sections (load_universal_base example_md5 scoped_fs))
              = [''Z'', ''A'']"
    unfolding base by (simp add: spec_sorted_sections_def spec_tuple_def)
  have k1: "map fst (load_universal_base example_md5 scoped_fs) = [''a:Z'', ''b:A'']"
    unfolding base by simp
  have k2: "map title (map snd (load_universal_base example_md5 scoped_fs)) = [''Z'', ''A'']"
    unfolding base by simp
  have k3: "map level (map snd (load_universal_base example_md5 scoped_fs)) = [1, 1]"
    unfolding base by simp
  have neq: "sorted_sections (load_universal_base example_md5 scoped_fs)
          \<noteq> spec_sorted_sections (load_universal_base example_md5 scoped_fs)"
  proof
    assume "sorted_sections (load_universal_base example_md5 scoped_fs)
              = spec_sorted_sections (load_universal_base example_md5 scoped_fs)"
    then have "map title (sorted_sections (load_universal_base example_md5 scoped_fs))
                 = map title (spec_sorted_sections (load_universal_base example_md5 scoped_fs))"
      by (rule arg_cong)
    then have "[''A'', ''Z''] = [''Z'', ''A'']"
      unfolding code spec .
    then show False by simp
  qed
  show ?thesis
    by (intro conjI k1 k2 k3 lt meta code spec neq)
qed

text \<open>
  C8, amended. The sections of the rendered document appear ordered by level ascending and,
  within equal level, by title ascending; sections of equal level and title keep the order
  they have in the mapping, and every section of the mapping is rendered once. So the order
  is a function of the resolved mapping. It is the order by level and identity whenever
  every section is stored under its title, which holds for all sections but the
  scope-qualified ones of the language files.
\<close>

theorem rendered_in_level_then_title_order:
  "sorted (map sort_tuple (sorted_sections secs))
   \<and> mset (sorted_sections secs) = mset (map snd secs)
   \<and> filter (\<lambda>s. sort_tuple s = k) (sorted_sections secs)
       = filter (\<lambda>s. sort_tuple s = k) (map snd secs)
   \<and> generate_claude_md env secs
       = join_lines
           ([''# CLAUDE.md - Generated '' @ now_content env, [],
             ''*This file is auto-generated from 3-tier template system. Do not edit directly.*'',
             []]
            @ concat (map (section_lines env) (sorted_sections secs)))
   \<and> ((\<forall>item \<in> set secs. fst item = title (snd item))
        \<longrightarrow> sorted_sections secs = spec_sorted_sections secs)"
proof (intro conjI impI)
  show "sorted (map sort_tuple (sorted_sections secs))"
    by (simp add: sorted_sections_def)
  show "mset (sorted_sections secs) = mset (map snd secs)"
    by (simp add: sorted_sections_def)
  show "filter (\<lambda>s. sort_tuple s = k) (sorted_sections secs)
          = filter (\<lambda>s. sort_tuple s = k) (map snd secs)"
    unfolding sorted_sections_def by (rule sort_key_stable)
  show "generate_claude_md env secs
       = join_lines
           ([''# CLAUDE.md - Generated '' @ now_content env, [],
             ''*This file is auto-generated from 3-tier template system. Do not edit directly.*'',
             []]
            @ concat (map (section_lines env) (sorted_sections secs)))"
    by (simp add: generate_claude_md_def)
next
  assume keys: "\<forall>item \<in> set secs. fst item = title (snd item)"
  have "\<forall>item \<in> set secs. sort_tuple (snd item) = spec_tuple item"
    using keys by (simp add: sort_tuple_def spec_tuple_def)
  then have "sort_key (\<lambda>item. sort_tuple (snd item)) secs = sort_key spec_tuple secs"
    by (rule sort_key_agree)
  then show "sorted_sections secs = spec_sorted_sections secs"
    by (simp add: sorted_sections_def spec_sorted_sections_def sort_key_map)
qed

theorem rendered_in_level_then_title_order_witness:
  "map fst [(''B'', universal_section\<lparr>title := ''B''\<rparr>), (''A'', universal_section)]
     = map title (map snd [(''B'', universal_section\<lparr>title := ''B''\<rparr>),
                           (''A'', universal_section)])
   \<and> sorted_sections [(''B'', universal_section\<lparr>title := ''B''\<rparr>), (''A'', universal_section)]
       = spec_sorted_sections
           [(''B'', universal_section\<lparr>title := ''B''\<rparr>), (''A'', universal_section)]
   \<and> map title
         (sorted_sections
            [(''B'', universal_section\<lparr>title := ''B''\<rparr>), (''A'', universal_section)])
       = [''A'', ''B'']"
proof -
  have h: "\<forall>item \<in> set [(''B'', universal_section\<lparr>title := ''B''\<rparr>), (''A'', universal_section)].
             fst item = title (snd item)"
    by (simp add: universal_section_def)
  have t: "map title
             (sorted_sections
                [(''B'', universal_section\<lparr>title := ''B''\<rparr>), (''A'', universal_section)])
           = [''A'', ''B'']"
    by (simp add: sorted_sections_def sort_tuple_def universal_section_def)
  have m: "map fst [(''B'', universal_section\<lparr>title := ''B''\<rparr>), (''A'', universal_section)]
             = map title (map snd [(''B'', universal_section\<lparr>title := ''B''\<rparr>),
                                   (''A'', universal_section)])"
    by (simp add: universal_section_def)
  have e: "sorted_sections [(''B'', universal_section\<lparr>title := ''B''\<rparr>), (''A'', universal_section)]
       = spec_sorted_sections
           [(''B'', universal_section\<lparr>title := ''B''\<rparr>), (''A'', universal_section)]"
    using h
      rendered_in_level_then_title_order
        [of "[(''B'', universal_section\<lparr>title := ''B''\<rparr>), (''A'', universal_section)]"]
    by blast
  show ?thesis
    by (intro conjI m e t)
qed

subsection \<open>Running the pipeline twice\<close>

lemma finish_claude_system:
  "claude_system (snd (finish cfg env fs dry_run orig secs doc)) = claude_system fs"
  by (simp add: finish_def Let_def split: option.splits)

lemma finish_claude_company:
  "claude_company (snd (finish cfg env fs dry_run orig secs doc)) = claude_company fs"
  by (simp add: finish_def Let_def split: option.splits)

lemma load_universal_base_cong:
  "claude_system fs' = claude_system fs \<Longrightarrow> load_universal_base md5 fs' = load_universal_base md5 fs"
  by (simp add: load_universal_base_def)

lemma apply_company_overrides_cong:
  "claude_company fs' = claude_company fs
   \<Longrightarrow> apply_company_overrides md5 lower cfg fs' M = apply_company_overrides md5 lower cfg fs M"
  by (simp add: apply_company_overrides_def)

lemma finish_project:
  "apply_project_customizations md5 (snd (finish cfg env fs dry_run orig secs doc)) M
     = apply_project_customizations md5 fs M"
  by (simp add: finish_def Let_def apply_project_customizations_def empty_project_dir_def
      split: option.splits)

lemma finish_developer:
  "apply_developer_preferences md5 cfg' (snd (finish cfg env fs dry_run orig secs doc)) M u
     = apply_developer_preferences md5 cfg' fs M u"
  by (simp add: finish_def Let_def apply_developer_preferences_def empty_project_dir_def
      split: option.splits)

lemma resolve_after_finish:
  "resolve md5 lower cfg' (snd (finish cfg env fs dry_run orig secs doc)) username
     = resolve md5 lower cfg' fs username"
  by (simp add: resolve_def Let_def finish_project finish_developer
      load_universal_base_cong [OF finish_claude_system]
      apply_company_overrides_cong [OF finish_claude_company] split: option.splits)

lemma dict_in_keys: "key \<in> set (map fst M) \<Longrightarrow> dict_in key M"
  by (simp add: dict_in_def map_of_eq_None_iff)

lemma find_added_same: "find_added M M = []"
  by (simp add: find_added_def filter_empty_conv dict_in_keys)

lemma find_removed_same: "find_removed M M = []"
  by (simp add: find_removed_def filter_empty_conv dict_in_keys)

lemma find_modified_same: "find_modified M M = []"
  by (simp add: find_modified_def)

lemma generate_claude_md_clock:
  "generate_claude_md env secs
     = ''# CLAUDE.md - Generated '' @ now_content env @ [newline]
       @ join_lines
           ([[], ''*This file is auto-generated from 3-tier template system. Do not edit directly.*'',
             []]
            @ concat (map (section_lines env) (sorted_sections secs)))"
  by (simp add: generate_claude_md_def)

lemma section_lines_cong:
  "claude_debug env' = claude_debug env \<Longrightarrow> section_lines env' = section_lines env"
  by (rule ext) (simp add: section_lines_def)


text \<open>
  C4, as the specification states it, fails. The first line of the document carries
  \<open>datetime.now()\<close> to the second. The pipeline runs in commit mode on the same templates
  twice, the second time one second later and on the files the first run left: both runs
  resolve the same mapping and return a document, and the two documents differ.
\<close>

theorem second_run_later_differs:
  "fst (merge example_md5 ascii_lower example_cfg example_env example_fs None False)
     = Inr (generate_claude_md example_env [(''A'', project_attempt)])
   \<and> fst (merge example_md5 ascii_lower example_cfg later_env
             (snd (merge example_md5 ascii_lower example_cfg example_env example_fs None False)) None False)
     = Inr (generate_claude_md later_env [(''A'', project_attempt)])
   \<and> generate_claude_md example_env [(''A'', project_attempt)]
     \<noteq> generate_claude_md later_env [(''A'', project_attempt)]"
proof -
  have res: "resolve example_md5 ascii_lower example_cfg example_fs None = [(''A'', project_attempt)]"
    by (simp add: resolve_def load_universal_base_def apply_company_overrides_def
        apply_project_customizations_def example_fs_def example_cfg_def example_md5_def
        parse_markdown_sections_def post_init_def universal_step_def company_step_def
        project_step_def dict_in_def dict_get_def project_attempt_def Let_def)
  have base: "load_universal_base example_md5 example_fs
              = [(''A'', universal_section)]"
    by (simp add: load_universal_base_def example_fs_def example_md5_def
        parse_markdown_sections_def post_init_def universal_step_def universal_section_def)
  have nov: "policy_violations
               (analyze_changes example_cfg [(''A'', universal_section)]
                  [(''A'', project_attempt)]) = []"
    by (simp add: analyze_changes_def find_policy_violations_def dict_in_def dict_get_def
        universal_section_def project_attempt_def)
  have first: "fst (merge example_md5 ascii_lower example_cfg example_env example_fs None False)
     = Inr (generate_claude_md example_env [(''A'', project_attempt)])"
    by (simp add: merge_def finish_def Let_def res base nov)
  have res2: "resolve example_md5 ascii_lower example_cfg
                (snd (merge example_md5 ascii_lower example_cfg example_env example_fs None False)) None
              = [(''A'', project_attempt)]"
    by (simp add: merge_def Let_def resolve_after_finish res)
  have base2: "load_universal_base example_md5
                (snd (merge example_md5 ascii_lower example_cfg example_env example_fs None False))
              = [(''A'', universal_section)]"
    by (simp add: merge_def Let_def load_universal_base_cong [OF finish_claude_system] base)
  have second: "fst (merge example_md5 ascii_lower example_cfg later_env
             (snd (merge example_md5 ascii_lower example_cfg example_env example_fs None False)) None False)
     = Inr (generate_claude_md later_env [(''A'', project_attempt)])"
    unfolding merge_def [of example_md5 ascii_lower example_cfg later_env] Let_def res2 base2
    by (simp add: finish_def Let_def nov)
  have diff: "generate_claude_md example_env [(''A'', project_attempt)]
     \<noteq> generate_claude_md later_env [(''A'', project_attempt)]"
    by (simp add: generate_claude_md_clock example_env_def later_env_def)
  show ?thesis
    by (intro conjI first second diff)
qed

text \<open>
  C4, amended. A run changes none of the tier inputs: a second run, on the files the first
  run left, resolves the same mapping, and the audit of the two resolved mappings has no
  added, removed or modified entry. The two documents are byte-identical when the two runs
  read the same clock value in \<open>generate_claude_md\<close> and the same \<open>CLAUDE_DEBUG\<close> setting;
  then a second commit run returns what the first returned.
\<close>

theorem rerun_idempotent_up_to_clock:
  "resolve md5 lower cfg (snd (merge md5 lower cfg env fs username dry_run)) username
     = resolve md5 lower cfg fs username
   \<and> added (analyze_changes cfg (resolve md5 lower cfg fs username)
              (resolve md5 lower cfg (snd (merge md5 lower cfg env fs username dry_run)) username)) = []
   \<and> removed (analyze_changes cfg (resolve md5 lower cfg fs username)
              (resolve md5 lower cfg (snd (merge md5 lower cfg env fs username dry_run)) username)) = []
   \<and> modified (analyze_changes cfg (resolve md5 lower cfg fs username)
              (resolve md5 lower cfg (snd (merge md5 lower cfg env fs username dry_run)) username)) = []
   \<and> (now_content env' = now_content env \<and> claude_debug env' = claude_debug env \<longrightarrow>
        generate_claude_md env'
            (resolve md5 lower cfg (snd (merge md5 lower cfg env fs username dry_run)) username)
          = generate_claude_md env (resolve md5 lower cfg fs username)
        \<and> fst (merge md5 lower cfg env' (snd (merge md5 lower cfg env fs username False)) username False)
          = fst (merge md5 lower cfg env fs username False))"
proof -
  let ?fs1 = "snd (merge md5 lower cfg env fs username dry_run)"
  have res: "resolve md5 lower cfg (snd (merge md5 lower cfg env fs username d)) username
               = resolve md5 lower cfg fs username" for d
    by (simp add: merge_def Let_def resolve_after_finish)
  have base: "load_universal_base md5 (snd (merge md5 lower cfg env fs username d))
               = load_universal_base md5 fs" for d
    by (simp add: merge_def Let_def load_universal_base_cong [OF finish_claude_system])
  have doc: "generate_claude_md env' secs = generate_claude_md env secs"
    if "now_content env' = now_content env" "claude_debug env' = claude_debug env" for secs
    using that by (simp add: generate_claude_md_def section_lines_cong [OF that(2)])
  have again: "fst (merge md5 lower cfg env' (snd (merge md5 lower cfg env fs username False)) username False)
          = fst (merge md5 lower cfg env fs username False)"
    if "now_content env' = now_content env" "claude_debug env' = claude_debug env"
    unfolding merge_def [of md5 lower cfg env'] Let_def res base doc [OF that]
    by (simp add: merge_def finish_def Let_def)
  show ?thesis
  proof (intro conjI impI)
    show "resolve md5 lower cfg ?fs1 username = resolve md5 lower cfg fs username"
      by (rule res)
    show "added (analyze_changes cfg (resolve md5 lower cfg fs username)
                   (resolve md5 lower cfg ?fs1 username)) = []"
      unfolding res by (simp add: analyze_changes_def find_added_same)
    show "removed (analyze_changes cfg (resolve md5 lower cfg fs username)
                   (resolve md5 lower cfg ?fs1 username)) = []"
      unfolding res by (simp add: analyze_changes_def find_removed_same)
    show "modified (analyze_changes cfg (resolve md5 lower cfg fs username)
                   (resolve md5 lower cfg ?fs1 username)) = []"
      unfolding res by (simp add: analyze_changes_def find_modified_same)
  next
    assume same: "now_content env' = now_content env \<and> claude_debug env' = claude_debug env"
    show "generate_claude_md env' (resolve md5 lower cfg ?fs1 username)
            = generate_claude_md env (resolve md5 lower cfg fs username)"
      unfolding res using same by (intro doc) simp_all
    show "fst (merge md5 lower cfg env' (snd (merge md5 lower cfg env fs username False)) username False)
            = fst (merge md5 lower cfg env fs username False)"
      using same by (intro again) simp_all
  qed
qed


theorem rerun_idempotent_up_to_clock_witness:
  "now_content (example_env\<lparr>now_report := ''2025-01-01 00:00:05''\<rparr>) = now_content example_env
   \<and> claude_debug (example_env\<lparr>now_report := ''2025-01-01 00:00:05''\<rparr>)
       = claude_debug example_env
   \<and> fst (merge example_md5 ascii_lower example_cfg (example_env\<lparr>now_report := ''2025-01-01 00:00:05''\<rparr>)
             (snd (merge example_md5 ascii_lower example_cfg example_env example_fs (Some ''dev'') False))
             (Some ''dev'') False)
       = fst (merge example_md5 ascii_lower example_cfg example_env example_fs (Some ''dev'') False)"
proof -
  have h: "now_content (example_env\<lparr>now_report := ''2025-01-01 00:00:05''\<rparr>)
             = now_content example_env
           \<and> claude_debug (example_env\<lparr>now_report := ''2025-01-01 00:00:05''\<rparr>)
             = claude_debug example_env"
    by simp
  show ?thesis
    using h
      rerun_idempotent_up_to_clock
        [of example_md5 ascii_lower example_cfg example_env example_fs "Some ''dev''" False
            "example_env\<lparr>now_report := ''2025-01-01 00:00:05''\<rparr>"]
    by blast
qed

subsection \<open>A missing universal tier\<close>

lemma no_baseline_no_violation: "find_policy_violations cfg [] secs = []"
  by (simp add: find_policy_violations_def dict_in_def)

text \<open>
  C7, as the specification states it, fails. \<open>load_universal_base\<close> tests
  \<open>core_path.exists()\<close> and \<open>languages_dir.exists()\<close> and skips what is missing. With no
  template at all the commit run raises nothing: it returns, and writes to the destination,
  the document that consists of the generated header.
\<close>

theorem empty_universal_tier_merges:
  "core_md (claude_system empty_fs) = None
   \<and> languages (claude_system empty_fs) = None
   \<and> merge example_md5 ascii_lower example_cfg example_env empty_fs None False
       = (Inr (''# CLAUDE.md - Generated 2025-01-01 00:00:00'' @ [newline, newline]
               @ ''*This file is auto-generated from 3-tier template system. Do not edit directly.*''
               @ [newline]),
          empty_fs\<lparr>claude_md :=
            Some (''# CLAUDE.md - Generated 2025-01-01 00:00:00'' @ [newline, newline]
               @ ''*This file is auto-generated from 3-tier template system. Do not edit directly.*''
               @ [newline])\<rparr>)"
proof -
  have base: "load_universal_base example_md5 empty_fs = []"
    by (simp add: load_universal_base_def empty_fs_def)
  have dirs: "claude_company empty_fs = None" "claude_project empty_fs = None"
    by (simp_all add: empty_fs_def)
  have res: "resolve example_md5 ascii_lower example_cfg empty_fs None = []"
    by (simp add: resolve_def base dirs apply_company_overrides_def
        apply_project_customizations_def)
  have doc: "generate_claude_md example_env []
        = ''# CLAUDE.md - Generated 2025-01-01 00:00:00'' @ [newline, newline]
               @ ''*This file is auto-generated from 3-tier template system. Do not edit directly.*''
               @ [newline]"
    by (simp add: generate_claude_md_def sorted_sections_def example_env_def)
  have dest: "claude_md empty_fs = None"
    by (simp add: empty_fs_def)
  have m: "merge example_md5 ascii_lower example_cfg example_env empty_fs None False
             = (Inr (generate_claude_md example_env []),
                empty_fs\<lparr>claude_md := Some (generate_claude_md example_env [])\<rparr>)"
    by (simp add: merge_def Let_def base res finish_def analyze_changes_def
        no_baseline_no_violation dest)
  have c: "core_md (claude_system empty_fs) = None" "languages (claude_system empty_fs) = None"
    by (simp_all add: empty_fs_def)
  show ?thesis
    unfolding m doc using c by simp
qed

text \<open>
  C7, amended. When the universal tier has no source material (neither \<open>core.md\<close> nor the
  \<open>languages\<close> directory exists) the pipeline does not fail: the universal tier contributes
  the empty mapping, as the company, project and developer tiers contribute nothing when
  their directories are missing, and both the commit run and the dry run complete on what
  the remaining tiers resolve to.
\<close>

theorem missing_universal_tier_is_not_fatal:
  assumes "core_md (claude_system fs) = None"
    and "languages (claude_system fs) = None"
  shows "load_universal_base md5 fs = []
         \<and> fst (merge md5 lower cfg env fs username False)
             = Inr (generate_claude_md env (resolve md5 lower cfg fs username))
         \<and> claude_md (snd (merge md5 lower cfg env fs username False))
             = Some (generate_claude_md env (resolve md5 lower cfg fs username))
         \<and> fst (merge md5 lower cfg env fs username True)
             = Inr (generate_dry_run_report env
                      (analyze_changes cfg [] (resolve md5 lower cfg fs username))
                      (generate_claude_md env (resolve md5 lower cfg fs username)))
         \<and> (claude_company fs = None \<longrightarrow> apply_company_overrides md5 lower cfg fs M = M)
         \<and> (claude_project fs = None \<longrightarrow>
               apply_project_customizations md5 fs M = M
               \<and> apply_developer_preferences md5 cfg fs M u = M)"
proof -
  have base: "load_universal_base md5 fs = []"
    using assms by (simp add: load_universal_base_def)
  have commit: "merge md5 lower cfg env fs username False
      = (Inr (generate_claude_md env (resolve md5 lower cfg fs username)),
         (case claude_md fs of None \<Rightarrow> fs
          | Some old \<Rightarrow> fs\<lparr>claude_md := None, claude_md_backup := Some old\<rparr>)
           \<lparr>claude_md := Some (generate_claude_md env (resolve md5 lower cfg fs username))\<rparr>)"
    by (simp add: merge_def Let_def base finish_def analyze_changes_def
        no_baseline_no_violation)
  have dry: "fst (merge md5 lower cfg env fs username True)
             = Inr (generate_dry_run_report env
                      (analyze_changes cfg [] (resolve md5 lower cfg fs username))
                      (generate_claude_md env (resolve md5 lower cfg fs username)))"
    by (simp add: merge_def Let_def base finish_def)
  show ?thesis
  proof (intro conjI impI)
    show "load_universal_base md5 fs = []" by (rule base)
    show "fst (merge md5 lower cfg env fs username False)
             = Inr (generate_claude_md env (resolve md5 lower cfg fs username))"
      unfolding commit by simp
    show "claude_md (snd (merge md5 lower cfg env fs username False))
             = Some (generate_claude_md env (resolve md5 lower cfg fs username))"
      unfolding commit by simp
    show "fst (merge md5 lower cfg env fs username True)
             = Inr (generate_dry_run_report env
                      (analyze_changes cfg [] (resolve md5 lower cfg fs username))
                      (generate_claude_md env (resolve md5 lower cfg fs username)))"
      by (rule dry)
  next
    assume "claude_company fs = None"
    then show "apply_company_overrides md5 lower cfg fs M = M"
      by (simp add: apply_company_overrides_def)
  next
    assume p: "claude_project fs = None"
    show "apply_project_customizations md5 fs M = M"
      using p by (simp add: apply_project_customizations_def)
    show "apply_developer_preferences md5 cfg fs M u = M"
      using p by (simp add: apply_developer_preferences_def)
  qed
qed

theorem missing_universal_tier_is_not_fatal_witness:
  "core_md (claude_system empty_fs) = None
   \<and> languages (claude_system empty_fs) = None
   \<and> claude_company empty_fs = None
   \<and> claude_project empty_fs = None
   \<and> load_universal_base example_md5 empty_fs = []
   \<and> fst (merge example_md5 ascii_lower example_cfg example_env empty_fs (Some ''dev'') False)
       = Inr (generate_claude_md example_env
                (resolve example_md5 ascii_lower example_cfg empty_fs (Some ''dev'')))
   \<and> apply_company_overrides example_md5 ascii_lower example_cfg empty_fs [(''A'', universal_section)]
       = [(''A'', universal_section)]
   \<and> apply_project_customizations example_md5 empty_fs [(''A'', universal_section)]
       = [(''A'', universal_section)]"
proof -
  have h1: "core_md (claude_system empty_fs) = None"
    by (simp add: empty_fs_def)
  have h2: "languages (claude_system empty_fs) = None"
    by (simp add: empty_fs_def)
  have h3: "claude_company empty_fs = None"
    by (simp add: empty_fs_def)
  have h4: "claude_project empty_fs = None"
    by (simp add: empty_fs_def)
  show ?thesis
    using h1 h2 h3 h4
      missing_universal_tier_is_not_fatal
        [OF h1 h2, of example_md5 ascii_lower example_cfg example_env "Some ''dev''"
           "[(''A'', universal_section)]" "''dev''"]
    by blast
qed

end
